theory Spec2Isabelle
  imports Main "HOL-Library.Sublist"
begin

section \<open>JavaScript values\<close>

text \<open>
  The module loader of \<^verbatim>\<open>setupModuleLoader\<close> and the \<^verbatim>\<open>$exceptionHandler\<close> service handle
  their arguments as opaque JavaScript values: they store them, test them for truthiness and
  pass them on. Functions are never called by the loader, so a function value is an opaque
  label. Module descriptors are objects with identity: a value refers to one by its address
  in the store. Arrays are kept by value (the loader never mutates a \<^verbatim>\<open>requires\<close> array).
  Numbers are left out (they are floating point); no code path below depends on them.
\<close>

type_synonym addr = nat

datatype jsval =
    Undefined
  | Null
  | JBool bool
  | JStr string
  | JArr "jsval list"
  | JFun nat
  | JNative string
  | JRef addr

text \<open>ToBoolean: what \<^verbatim>\<open>if (v)\<close>, \<^verbatim>\<open>!v\<close> and \<^verbatim>\<open>v || w\<close> test. Every object, array and
  function is truthy, the empty array included.\<close>

fun truthy :: "jsval \<Rightarrow> bool" where
  "truthy Undefined = False"
| "truthy Null = False"
| "truthy (JBool b) = b"
| "truthy (JStr s) = (s \<noteq> [])"
| "truthy (JArr vs) = True"
| "truthy (JFun f) = True"
| "truthy (JNative f) = True"
| "truthy (JRef a) = True"

datatype error = Error string | TypeError string

section \<open>The store: module descriptors and the registry\<close>

text \<open>
  A module descriptor (\<^verbatim>\<open>moduleInstance\<close>) owns two arrays, \<^verbatim>\<open>_invokeQueue\<close> and
  \<^verbatim>\<open>_runBlocks\<close>, which its methods mutate, and the fields \<^verbatim>\<open>requires\<close> and \<^verbatim>\<open>name\<close>.
  An entry of the invoke queue is the array \<^verbatim>\<open>[provider, method, arguments]\<close>.
\<close>

type_synonym invocation = "string \<times> string \<times> jsval list"

record module_obj =
  invokeQueue :: "invocation list"
  runBlocks :: "jsval list"
  requires :: jsval
  name :: string

text \<open>
  \<^verbatim>\<open>var modules = {}\<close> is a plain object, annotated
  \<^verbatim>\<open>Object.<string, ?angular.Module>\<close>: its own properties hold \<^verbatim>\<open>null\<close> (\<open>None\<close>) or a
  module descriptor (\<open>Some a\<close>, the descriptor at address \<open>a\<close>). The descriptors live in
  the heap, a list indexed by address; allocation appends.
\<close>

type_synonym registry = "string \<rightharpoonup> addr option"

record loader =
  modules :: registry
  heap :: "module_obj list"

definition initial_loader :: loader where
  "initial_loader = \<lparr>modules = Map.empty, heap = []\<rparr>"

text \<open>
  A plain object inherits from \<^verbatim>\<open>Object.prototype\<close>, and \<^verbatim>\<open>obj[name]\<close> reads through the
  prototype chain. These are the properties of \<^verbatim>\<open>Object.prototype\<close> of ECMAScript 5.1
  (section 15.2.4); each is a built-in function.
\<close>

definition Object_prototype_names :: "string list" where
  "Object_prototype_names =
     [''constructor'', ''toString'', ''toLocaleString'', ''valueOf'',
      ''hasOwnProperty'', ''isPrototypeOf'', ''propertyIsEnumerable'']"

definition Object_prototype :: "string \<Rightarrow> jsval option" where
  "Object_prototype k = (if k \<in> set Object_prototype_names then Some (JNative k) else None)"

text \<open>\<^verbatim>\<open>obj[name]\<close> on the registry: an own property shadows an inherited one; a property
  found nowhere reads as \<^verbatim>\<open>undefined\<close>.\<close>

definition get_prop :: "registry \<Rightarrow> string \<Rightarrow> jsval" where
  "get_prop own k =
     (case own k of
        Some None \<Rightarrow> Null
      | Some (Some a) \<Rightarrow> JRef a
      | None \<Rightarrow> (case Object_prototype k of Some f \<Rightarrow> f | None \<Rightarrow> Undefined))"

text \<open>\<^verbatim>\<open>modules.hasOwnProperty(name)\<close>: the method itself is read through \<^verbatim>\<open>modules\<close>, so
  an own property of that name (a descriptor or \<^verbatim>\<open>null\<close>) would be called instead, which
  is a TypeError.\<close>

definition hasOwnProperty :: "registry \<Rightarrow> string \<Rightarrow> error + bool" where
  "hasOwnProperty own k =
     (case get_prop own ''hasOwnProperty'' of
        JNative f \<Rightarrow> Inr (own k \<noteq> None)
      | _ \<Rightarrow> Inl (TypeError ''modules.hasOwnProperty is not a function''))"

section \<open>The methods of a module descriptor\<close>

text \<open>
  \<^verbatim>\<open>invokeLater(provider, method, insertMethod)\<close> returns a closure over the descriptor's
  \<^verbatim>\<open>invokeQueue\<close> and \<^verbatim>\<open>moduleInstance\<close>. The closure of the descriptor at address \<open>a\<close>,
  called with \<open>arguments\<close>, runs
  \<^verbatim>\<open>invokeQueue.push([provider, method, arguments]); return moduleInstance;\<close>.
  The line that would have used \<^verbatim>\<open>insertMethod\<close> is commented out in the source, so the
  parameter is unused.
\<close>

definition invokeLater ::
  "addr \<Rightarrow> string \<Rightarrow> string \<Rightarrow> string option \<Rightarrow> jsval list \<Rightarrow> loader \<Rightarrow> jsval \<times> loader" where
  "invokeLater a provider method insertMethod arguments st =
     (JRef a,
      st\<lparr>heap := (heap st)
            [a := (heap st ! a)\<lparr>invokeQueue :=
                     invokeQueue (heap st ! a) @ [(provider, method, arguments)]\<rparr>]\<rparr>)"

text \<open>The first formal parameter of a call: \<^verbatim>\<open>undefined\<close> when no argument was passed.\<close>

fun arg0 :: "jsval list \<Rightarrow> jsval" where
  "arg0 [] = Undefined"
| "arg0 (v # vs) = v"

text \<open>\<^verbatim>\<open>run: function(initializationFn) { runBlocks.push(initializationFn); return moduleInstance; }\<close>\<close>

definition run :: "addr \<Rightarrow> jsval list \<Rightarrow> loader \<Rightarrow> jsval \<times> loader" where
  "run a arguments st =
     (JRef a,
      st\<lparr>heap := (heap st)
            [a := (heap st ! a)\<lparr>runBlocks := runBlocks (heap st ! a) @ [arg0 arguments]\<rparr>]\<rparr>)"

text \<open>The public methods of the descriptor, as the object literal defines them.\<close>

datatype method_name =
  Provider | Factory | Service | Value | Constant | Filter | Controller | Directive
  | Config | Run

fun call_method :: "method_name \<Rightarrow> addr \<Rightarrow> jsval list \<Rightarrow> loader \<Rightarrow> jsval \<times> loader" where
  "call_method Provider a = invokeLater a ''$provide'' ''provider'' None"
| "call_method Factory a = invokeLater a ''$provide'' ''factory'' None"
| "call_method Service a = invokeLater a ''$provide'' ''service'' None"
| "call_method Value a = invokeLater a ''$provide'' ''value'' None"
| "call_method Constant a = invokeLater a ''$provide'' ''constant'' (Some ''unshift'')"
| "call_method Filter a = invokeLater a ''$filterProvider'' ''register'' None"
| "call_method Controller a = invokeLater a ''$controllerProvider'' ''register'' None"
| "call_method Directive a = invokeLater a ''$compileProvider'' ''directive'' None"
| "call_method Config a = invokeLater a ''$injector'' ''invoke'' None"
| "call_method Run a = run a"

text \<open>
  A chain \<^verbatim>\<open>m.f1(..).f2(..)...\<close>: each call is made on the value the previous call
  returned. Calling a method on a value that is not a descriptor is a TypeError.
\<close>

fun chain ::
  "(method_name \<times> jsval list) list \<Rightarrow> jsval \<Rightarrow> loader \<Rightarrow> (error + jsval) \<times> loader" where
  "chain [] v st = (Inr v, st)"
| "chain ((meth, arguments) # cs) (JRef a) st =
     (case call_method meth a arguments st of (v, st') \<Rightarrow> chain cs v st')"
| "chain ((meth, arguments) # cs) v st = (Inl (TypeError ''not a module''), st)"

section \<open>The loader: \<^verbatim>\<open>angular.module\<close>\<close>

text \<open>
  \<^verbatim>\<open>function ensure(obj, name, factory) { return obj[name] || (obj[name] = factory()); }\<close>
  with \<^verbatim>\<open>obj\<close> the registry. The factory runs only when the property reads falsy; when it
  throws, nothing is assigned. The factory returns the descriptor it has built.
\<close>

definition ensure ::
  "string \<Rightarrow> (loader \<Rightarrow> (error + addr) \<times> loader) \<Rightarrow> loader \<Rightarrow> (error + jsval) \<times> loader" where
  "ensure nm factory st =
     (let v = get_prop (modules st) nm in
      if truthy v then (Inr v, st)
      else (case factory st of
              (Inl e, st') \<Rightarrow> (Inl e, st')
            | (Inr a, st') \<Rightarrow> (Inr (JRef a), st'\<lparr>modules := (modules st')(nm \<mapsto> Some a)\<rparr>)))"

text \<open>
  The factory that \<^verbatim>\<open>module\<close> hands to \<^verbatim>\<open>ensure\<close>: it throws when \<^verbatim>\<open>requires\<close> is falsy,
  and otherwise allocates the two arrays and the descriptor and, when \<^verbatim>\<open>configFn\<close> is
  truthy, calls \<^verbatim>\<open>moduleInstance.config(configFn)\<close>.
\<close>

definition module_factory ::
  "string \<Rightarrow> jsval \<Rightarrow> jsval \<Rightarrow> loader \<Rightarrow> (error + addr) \<times> loader" where
  "module_factory nm reqs configFn st =
     (if \<not> truthy reqs then (Inl (Error (''No module: '' @ nm)), st)
      else
        let a = length (heap st);
            st1 = st\<lparr>heap := heap st @
                     [\<lparr>invokeQueue = [], runBlocks = [], requires = reqs, name = nm\<rparr>]\<rparr>;
            st2 = (if truthy configFn then snd (call_method Config a [configFn] st1) else st1)
        in (Inr a, st2))"

text \<open>
  \<^verbatim>\<open>function module(name, requires, configFn)\<close>. An argument that is not supplied is
  \<^verbatim>\<open>undefined\<close>. \<^verbatim>\<open>requires && modules.hasOwnProperty(name)\<close> short-circuits: the method
  is called only when \<^verbatim>\<open>requires\<close> is truthy.
\<close>

definition module :: "string \<Rightarrow> jsval \<Rightarrow> jsval \<Rightarrow> loader \<Rightarrow> (error + jsval) \<times> loader" where
  "module nm reqs configFn st =
     (if truthy reqs then
        (case hasOwnProperty (modules st) nm of
           Inl e \<Rightarrow> (Inl e, st)
         | Inr own \<Rightarrow>
             ensure nm (module_factory nm reqs configFn)
               (if own then st\<lparr>modules := (modules st)(nm \<mapsto> None)\<rparr> else st))
      else ensure nm (module_factory nm reqs configFn) st)"

text \<open>
  The states the loader can be in between calls: every own entry of the registry is a
  descriptor of the heap, under a name that \<^verbatim>\<open>Object.prototype\<close> does not define.
\<close>

definition wf_loader :: "loader \<Rightarrow> bool" where
  "wf_loader st \<longleftrightarrow>
     (\<forall>k v. modules st k = Some v \<longrightarrow>
        Object_prototype k = None \<and> (\<exists>a. v = Some a \<and> a < length (heap st)))"

text \<open>A loader in which \<^verbatim>\<open>angular.module('app', ['dep'])\<close> has been called once.\<close>

definition app_loader :: loader where
  "app_loader =
     \<lparr>modules = [''app'' \<mapsto> Some 0],
      heap = [\<lparr>invokeQueue = [], runBlocks = [], requires = JArr [JStr ''dep''],
               name = ''app''\<rparr>]\<rparr>"

section \<open>The exception handler\<close>

text \<open>
  \<^verbatim>\<open>$ExceptionHandlerProvider.$get\<close> receives the \<^verbatim>\<open>$log\<close> service and returns
  \<^verbatim>\<open>function(exception, cause) { $log.error.apply($log, arguments); }\<close>.
  The \<^verbatim>\<open>$log\<close> service is not part of this source; its \<^verbatim>\<open>error\<close> method is a parameter:
  a function of the argument list and of the state \<open>'l\<close> it works on, which returns or
  throws. The handler has no \<^verbatim>\<open>try\<close> and no \<^verbatim>\<open>return\<close>: an exception of the logger passes
  through, and the handler's own result is \<^verbatim>\<open>undefined\<close>.
\<close>

type_synonym 'l log_method = "jsval list \<Rightarrow> 'l \<Rightarrow> (error + jsval) \<times> 'l"

definition exceptionHandler :: "'l log_method \<Rightarrow> jsval list \<Rightarrow> 'l \<Rightarrow> (error + jsval) \<times> 'l" where
  "exceptionHandler log_error arguments l =
     (case log_error arguments l of
        (Inl e, l') \<Rightarrow> (Inl e, l')
      | (Inr r, l') \<Rightarrow> (Inr Undefined, l'))"

text \<open>Two loggers to run the handler on: one records each call's argument list, one throws.\<close>

definition recording_log :: "(jsval list) list log_method" where
  "recording_log arguments l = (Inr Undefined, l @ [arguments])"

definition throwing_log :: "(jsval list) list log_method" where
  "throwing_log arguments l = (Inl (Error ''console unavailable''), l)"

section \<open>Sequences of calls\<close>

text \<open>
  What one call of a public method is expected to leave in the invoke queue: the
  registration methods record \<^verbatim>\<open>[providerName, methodName, arguments]\<close>, \<^verbatim>\<open>run\<close> records
  nothing there. The theorems below compare \<open>call_method\<close> with this table.
\<close>

fun queue_target :: "method_name \<Rightarrow> (string \<times> string) option" where
  "queue_target Provider = Some (''$provide'', ''provider'')"
| "queue_target Factory = Some (''$provide'', ''factory'')"
| "queue_target Service = Some (''$provide'', ''service'')"
| "queue_target Value = Some (''$provide'', ''value'')"
| "queue_target Constant = Some (''$provide'', ''constant'')"
| "queue_target Filter = Some (''$filterProvider'', ''register'')"
| "queue_target Controller = Some (''$controllerProvider'', ''register'')"
| "queue_target Directive = Some (''$compileProvider'', ''directive'')"
| "queue_target Config = Some (''$injector'', ''invoke'')"
| "queue_target Run = None"

text \<open>An operation on the loader: a method call on the descriptor at an address, or a call
  of \<^verbatim>\<open>angular.module\<close> (whose exception, if any, the caller catches).\<close>

datatype operation =
    Call addr method_name "jsval list"
  | Module string jsval jsval

fun exec :: "operation \<Rightarrow> loader \<Rightarrow> loader" where
  "exec (Call a meth arguments) st = snd (call_method meth a arguments st)"
| "exec (Module nm reqs configFn) st = snd (module nm reqs configFn st)"

definition run_ops :: "operation list \<Rightarrow> loader \<Rightarrow> loader" where
  "run_ops ops st = fold exec ops st"

text \<open>The one operation that replaces the registry entry of a name: \<^verbatim>\<open>angular.module\<close>
  called with that name and a truthy \<^verbatim>\<open>requires\<close>.\<close>

fun overwrites :: "string \<Rightarrow> operation \<Rightarrow> bool" where
  "overwrites nm (Call a meth arguments) = False"
| "overwrites nm (Module nm' reqs configFn) = (nm' = nm \<and> truthy reqs)"

text \<open>The invoke-queue entries and the run blocks that a sequence of operations is expected
  to add to the descriptor at address \<open>b\<close>, in the order of the calls.\<close>

fun invoke_records :: "addr \<Rightarrow> operation list \<Rightarrow> invocation list" where
  "invoke_records b [] = []"
| "invoke_records b (Call a meth arguments # ops) =
     (case queue_target meth of
        Some (p, m) \<Rightarrow> (if a = b then [(p, m, arguments)] else []) @ invoke_records b ops
      | None \<Rightarrow> invoke_records b ops)"
| "invoke_records b (Module nm reqs configFn # ops) = invoke_records b ops"

fun run_records :: "addr \<Rightarrow> operation list \<Rightarrow> jsval list" where
  "run_records b [] = []"
| "run_records b (Call a meth arguments # ops) =
     (if a = b \<and> meth = Run then [arg0 arguments] else []) @ run_records b ops"
| "run_records b (Module nm reqs configFn # ops) = run_records b ops"

text \<open>The descriptor that a successful creation leaves in the heap: empty queues, except
  for the entry that a truthy \<^verbatim>\<open>configFn\<close> makes \<^verbatim>\<open>config\<close> record.\<close>

definition created_descriptor :: "string \<Rightarrow> jsval \<Rightarrow> jsval \<Rightarrow> module_obj" where
  "created_descriptor nm reqs configFn =
     \<lparr>invokeQueue = (if truthy configFn then [(''$injector'', ''invoke'', [configFn])] else []),
      runBlocks = [], requires = reqs, name = nm\<rparr>"

section \<open>Basic facts about the methods and the loader\<close>

text \<open>Every public method in one equation: it returns its descriptor and rewrites one slot
  of the heap, by the entry of its row or, for \<^verbatim>\<open>run\<close>, by its first argument.\<close>

lemma call_method_eq:
  "call_method meth a args st =
     (JRef a,
      st\<lparr>heap := (heap st)
        [a := (case queue_target meth of
                 Some (p, m) \<Rightarrow>
                   (heap st ! a)\<lparr>invokeQueue := invokeQueue (heap st ! a) @ [(p, m, args)]\<rparr>
               | None \<Rightarrow>
                   (heap st ! a)\<lparr>runBlocks := runBlocks (heap st ! a) @ [arg0 args]\<rparr>)]\<rparr>)"
  by (cases meth) (simp_all add: invokeLater_def run_def)

lemma call_method_modules: "modules (snd (call_method meth a args st)) = modules st"
  by (simp add: call_method_eq)

lemma call_method_length: "length (heap (snd (call_method meth a args st))) = length (heap st)"
  by (simp add: call_method_eq)

text \<open>In a well-formed loader \<^verbatim>\<open>modules.hasOwnProperty\<close> is the inherited method.\<close>

lemma Object_prototype_hasOwnProperty:
  "Object_prototype ''hasOwnProperty'' = Some (JNative ''hasOwnProperty'')"
  by (simp add: Object_prototype_def Object_prototype_names_def)

lemma hasOwnProperty_plain:
  "own ''hasOwnProperty'' = None \<Longrightarrow> hasOwnProperty own k = Inr (own k \<noteq> None)"
  by (simp add: hasOwnProperty_def get_prop_def Object_prototype_hasOwnProperty)

lemma wf_loader_hasOwnProperty: "wf_loader st \<Longrightarrow> modules st ''hasOwnProperty'' = None"
proof (rule ccontr)
  assume wf: "wf_loader st" and "modules st ''hasOwnProperty'' \<noteq> None"
  then obtain v where "modules st ''hasOwnProperty'' = Some v" by auto
  with wf have "Object_prototype ''hasOwnProperty'' = None"
    unfolding wf_loader_def by blast
  then show False by (simp add: Object_prototype_hasOwnProperty)
qed

text \<open>The two outcomes of the factory, and \<^verbatim>\<open>angular.module\<close> by the truthiness of
  \<^verbatim>\<open>requires\<close>: retrieval when it is falsy, creation when it is truthy.\<close>

lemma module_factory_creates:
  "truthy reqs \<Longrightarrow>
   module_factory nm reqs cfg st =
     (Inr (length (heap st)), st\<lparr>heap := heap st @ [created_descriptor nm reqs cfg]\<rparr>)"
  by (simp add: module_factory_def created_descriptor_def invokeLater_def Let_def)

lemma module_factory_throws:
  "\<not> truthy reqs \<Longrightarrow> module_factory nm reqs cfg st = (Inl (Error (''No module: '' @ nm)), st)"
  by (simp add: module_factory_def)

lemma module_retrieve:
  "\<not> truthy reqs \<Longrightarrow>
   module nm reqs cfg st =
     (if truthy (get_prop (modules st) nm) then (Inr (get_prop (modules st) nm), st)
      else (Inl (Error (''No module: '' @ nm)), st))"
  by (simp add: module_def ensure_def module_factory_throws)

lemma module_create:
  "truthy reqs \<Longrightarrow> modules st ''hasOwnProperty'' = None \<Longrightarrow>
   module nm reqs cfg st =
     (if modules st nm = None \<and> Object_prototype nm \<noteq> None
      then (Inr (get_prop (modules st) nm), st)
      else (Inr (JRef (length (heap st))),
            \<lparr>modules = (modules st)(nm \<mapsto> Some (length (heap st))),
             heap = heap st @ [created_descriptor nm reqs cfg]\<rparr>))"
  apply (simp add: module_def hasOwnProperty_plain)
  apply (auto simp add: ensure_def module_factory_creates get_prop_def Object_prototype_def
      split: option.splits)
  done

text \<open>Retrieval of a name that neither the registry nor \<^verbatim>\<open>Object.prototype\<close> knows throws,
  and leaves the state as it was.\<close>

lemma module_unregistered_raises:
  "modules st nm = None \<Longrightarrow> Object_prototype nm = None \<Longrightarrow> \<not> truthy reqs \<Longrightarrow>
   module nm reqs cfg st = (Inl (Error (''No module: '' @ nm)), st)"
  by (simp add: module_retrieve get_prop_def)

lemma module_heap_cases:
  "heap (snd (module nm reqs cfg st)) = heap st \<or>
   heap (snd (module nm reqs cfg st)) = heap st @ [created_descriptor nm reqs cfg]"
proof (cases "truthy reqs")
  case False
  then show ?thesis by (simp add: module_retrieve)
next
  case True
  then show ?thesis
    by (auto simp add: module_def ensure_def module_factory_creates Let_def
        split: sum.splits)
qed

text \<open>Well-formedness holds at the start and is kept by every operation.\<close>

lemma wf_loader_initial: "wf_loader initial_loader"
  by (simp add: wf_loader_def initial_loader_def)

lemma wf_loader_call_method: "wf_loader st \<Longrightarrow> wf_loader (snd (call_method meth a args st))"
  by (simp add: wf_loader_def call_method_eq)

lemma wf_loader_module:
  assumes wf: "wf_loader st"
  shows "wf_loader (snd (module nm reqs cfg st))"
proof (cases "truthy reqs")
  case False
  with wf show ?thesis by (simp add: module_retrieve)
next
  case True
  note own = wf_loader_hasOwnProperty [OF wf]
  show ?thesis
  proof (cases "modules st nm = None \<and> Object_prototype nm \<noteq> None")
    case True
    with wf \<open>truthy reqs\<close> own show ?thesis by (simp add: module_create)
  next
    case False
    with wf have "Object_prototype nm = None"
      unfolding wf_loader_def by (cases "modules st nm") auto
    with wf False \<open>truthy reqs\<close> own show ?thesis
      unfolding wf_loader_def
      by (auto simp add: module_create less_Suc_eq)
  qed
qed

lemma wf_loader_exec: "wf_loader st \<Longrightarrow> wf_loader (exec op st)"
  by (cases op) (simp_all add: wf_loader_call_method wf_loader_module)

lemma wf_loader_run_ops: "wf_loader st \<Longrightarrow> wf_loader (run_ops ops st)"
  unfolding run_ops_def by (induction ops arbitrary: st) (simp_all add: wf_loader_exec)

lemma app_loader_created:
  "module ''app'' (JArr [JStr ''dep'']) Undefined initial_loader = (Inr (JRef 0), app_loader)"
  by (simp add: module_create initial_loader_def app_loader_def created_descriptor_def
      Object_prototype_def Object_prototype_names_def)

lemma wf_loader_app: "wf_loader app_loader"
  using wf_loader_module [OF wf_loader_initial, of "''app''" "JArr [JStr ''dep'']" Undefined]
  by (simp add: app_loader_created)

text \<open>One operation, then a sequence of them, seen from one descriptor.\<close>

lemma exec_length: "length (heap st) \<le> length (heap (exec op st))"
proof (cases op)
  case (Call a meth args)
  then show ?thesis by (simp add: call_method_length)
next
  case (Module nm reqs cfg)
  with module_heap_cases [of nm reqs cfg st] show ?thesis by auto
qed

lemma queue_target_None: "queue_target meth = None \<longleftrightarrow> meth = Run"
  by (cases meth) simp_all

lemma exec_records:
  assumes "b < length (heap st)"
  shows "invokeQueue (heap (exec op st) ! b) = invokeQueue (heap st ! b) @ invoke_records b [op]"
    and "runBlocks (heap (exec op st) ! b) = runBlocks (heap st ! b) @ run_records b [op]"
proof -
  have "invokeQueue (heap (exec op st) ! b) = invokeQueue (heap st ! b) @ invoke_records b [op]
      \<and> runBlocks (heap (exec op st) ! b) = runBlocks (heap st ! b) @ run_records b [op]"
  proof (cases op)
    case (Call a meth args)
    with assms show ?thesis
      by (cases "a = b") (auto simp add: call_method_eq queue_target_None split: option.splits)
  next
    case (Module nm reqs cfg)
    with assms module_heap_cases [of nm reqs cfg st] show ?thesis
      by (auto simp add: nth_append)
  qed
  then show "invokeQueue (heap (exec op st) ! b) = invokeQueue (heap st ! b) @ invoke_records b [op]"
    and "runBlocks (heap (exec op st) ! b) = runBlocks (heap st ! b) @ run_records b [op]"
    by simp_all
qed

lemma invoke_records_Cons: "invoke_records b (op # ops) = invoke_records b [op] @ invoke_records b ops"
  by (cases op) (auto split: option.splits)

lemma run_records_Cons: "run_records b (op # ops) = run_records b [op] @ run_records b ops"
  by (cases op) auto

lemma run_ops_records:
  "b < length (heap st) \<Longrightarrow>
   b < length (heap (run_ops ops st)) \<and>
   invokeQueue (heap (run_ops ops st) ! b) = invokeQueue (heap st ! b) @ invoke_records b ops \<and>
   runBlocks (heap (run_ops ops st) ! b) = runBlocks (heap st ! b) @ run_records b ops"
proof (induction ops arbitrary: st)
  case Nil
  then show ?case by (simp add: run_ops_def)
next
  case (Cons op ops)
  from Cons.prems exec_length [of st op] have b: "b < length (heap (exec op st))" by simp
  have step: "run_ops (op # ops) st = run_ops ops (exec op st)" by (simp add: run_ops_def)
  from Cons.IH [OF b] exec_records [OF Cons.prems, of op] show ?case
    unfolding step
    by (simp add: invoke_records_Cons [of b op ops] run_records_Cons [of b op ops])
qed

lemma chain_run_ops:
  "chain cs (JRef a) st = (Inr (JRef a), run_ops (map (\<lambda>(meth, args). Call a meth args) cs) st)"
proof (induction cs arbitrary: st)
  case Nil
  then show ?case by (simp add: run_ops_def)
next
  case (Cons c cs)
  obtain meth args where c: "c = (meth, args)" by (cases c)
  show ?case
    by (simp add: c Cons.IH call_method_eq run_ops_def)
qed

text \<open>A registry entry stays as it is under every operation that does not register its
  name anew.\<close>

lemma module_other_entry:
  "nm' \<noteq> nm \<Longrightarrow> modules (snd (module nm' reqs cfg st)) nm = modules st nm"
  by (auto simp add: module_def ensure_def Let_def module_factory_creates
      module_factory_throws split: sum.splits)

lemma module_registered_retrieve:
  "modules st nm = Some (Some a) \<Longrightarrow> \<not> truthy reqs \<Longrightarrow>
   module nm reqs cfg st = (Inr (JRef a), st)"
  by (simp add: module_retrieve get_prop_def)

lemma exec_keeps_entry:
  assumes "modules st nm = Some (Some a)" and "\<not> overwrites nm op"
  shows "modules (exec op st) nm = Some (Some a)"
proof (cases op)
  case (Call b meth args)
  with assms show ?thesis by (simp add: call_method_modules)
next
  case (Module nm' reqs cfg)
  show ?thesis
  proof (cases "nm' = nm")
    case True
    with assms Module have "\<not> truthy reqs" by simp
    with assms True Module show ?thesis by (simp add: module_registered_retrieve)
  next
    case False
    with assms Module show ?thesis by (simp add: module_other_entry)
  qed
qed

lemma run_ops_keeps_entry:
  "modules st nm = Some (Some a) \<Longrightarrow> \<forall>op \<in> set ops. \<not> overwrites nm op \<Longrightarrow>
   modules (run_ops ops st) nm = Some (Some a)"
proof (induction ops arbitrary: st)
  case Nil
  then show ?case by (simp add: run_ops_def)
next
  case (Cons op ops)
  from Cons.prems have "modules (exec op st) nm = Some (Some a)"
    by (simp add: exec_keeps_entry)
  moreover from Cons.prems have "\<forall>op \<in> set ops. \<not> overwrites nm op" by simp
  ultimately have "modules (run_ops ops (exec op st)) nm = Some (Some a)"
    by (rule Cons.IH)
  then show ?case by (simp add: run_ops_def)
qed

section \<open>The methods of a descriptor\<close>

text \<open>
  Claim C8. Every public method of a module descriptor (provider, factory, service, value,
  constant, filter, controller, directive, config and run) returns the descriptor it was
  called on, and so does every chain of such calls, whatever the arguments and the state.
\<close>

theorem methods_return_descriptor:
  "fst (call_method meth a args st) = JRef a \<and> fst (chain cs (JRef a) st) = Inr (JRef a)"
  by (simp add: call_method_eq chain_run_ops)

text \<open>
  Claim C3. A call of one of the nine registration methods on a descriptor of the heap
  changes nothing but that descriptor's invoke queue, to which it appends the one entry
  \<^verbatim>\<open>[providerName, methodName, arguments]\<close> of its row; the arguments are stored as they
  were passed (a function among them is a value like any other: nothing is called). The
  run blocks, the registry and every other descriptor stay as they were.
\<close>

theorem registration_appends_record:
  assumes valid: "a < length (heap st)"
    and row: "(meth, p, m) \<in> set
      [(Provider, ''$provide'', ''provider''), (Factory, ''$provide'', ''factory''),
       (Service, ''$provide'', ''service''), (Value, ''$provide'', ''value''),
       (Constant, ''$provide'', ''constant''), (Filter, ''$filterProvider'', ''register''),
       (Controller, ''$controllerProvider'', ''register''),
       (Directive, ''$compileProvider'', ''directive''), (Config, ''$injector'', ''invoke'')]"
  shows "call_method meth a args st =
           (JRef a,
            st\<lparr>heap := (heap st)
              [a := (heap st ! a)\<lparr>invokeQueue := invokeQueue (heap st ! a) @ [(p, m, args)]\<rparr>]\<rparr>)
         \<and> invokeQueue (heap (snd (call_method meth a args st)) ! a) =
             invokeQueue (heap st ! a) @ [(p, m, args)]
         \<and> runBlocks (heap (snd (call_method meth a args st)) ! a) = runBlocks (heap st ! a)
         \<and> modules (snd (call_method meth a args st)) = modules st
         \<and> length (heap (snd (call_method meth a args st))) = length (heap st)
         \<and> (\<forall>b. b \<noteq> a \<longrightarrow> heap (snd (call_method meth a args st)) ! b = heap st ! b)"
proof -
  from row have "queue_target meth = Some (p, m)" by auto
  with valid show ?thesis by (simp add: call_method_eq)
qed

theorem registration_appends_record_witness:
  "call_method Factory 0 [JStr ''greeter'', JFun 7] app_loader =
     (JRef 0,
      \<lparr>modules = [''app'' \<mapsto> Some 0],
       heap = [\<lparr>invokeQueue = [(''$provide'', ''factory'', [JStr ''greeter'', JFun 7])],
                runBlocks = [], requires = JArr [JStr ''dep''], name = ''app''\<rparr>]\<rparr>)"
proof -
  have valid: "0 < length (heap app_loader)" by (simp add: app_loader_def)
  have row: "(Factory, ''$provide'', ''factory'') \<in> set
      [(Provider, ''$provide'', ''provider''), (Factory, ''$provide'', ''factory''),
       (Service, ''$provide'', ''service''), (Value, ''$provide'', ''value''),
       (Constant, ''$provide'', ''constant''), (Filter, ''$filterProvider'', ''register''),
       (Controller, ''$controllerProvider'', ''register''),
       (Directive, ''$compileProvider'', ''directive''), (Config, ''$injector'', ''invoke'')]"
    by simp
  from registration_appends_record [OF valid row, of "[JStr ''greeter'', JFun 7]"]
  show ?thesis by (simp add: app_loader_def)
qed

lemma run_chain_ops:
  "invoke_records a (map (\<lambda>f. Call a Run [f]) fns) = []
   \<and> run_records a (map (\<lambda>f. Call a Run [f]) fns) = fns"
  by (induction fns) simp_all

text \<open>
  Claim C6. \<^verbatim>\<open>run(fn)\<close> on a descriptor of the heap appends \<open>fn\<close> to that descriptor's run
  blocks and leaves its invoke queue as it was; successive calls \<^verbatim>\<open>run(f1)\<close>, \<^verbatim>\<open>run(f2)\<close>,
  ... leave \<open>f1, f2, ...\<close> after the earlier run blocks, in the order of the calls.
\<close>

theorem run_appends_block:
  assumes valid: "a < length (heap st)"
  shows "call_method Run a [fn] st =
           (JRef a,
            st\<lparr>heap := (heap st)
              [a := (heap st ! a)\<lparr>runBlocks := runBlocks (heap st ! a) @ [fn]\<rparr>]\<rparr>)
         \<and> runBlocks (heap (snd (call_method Run a [fn] st)) ! a) = runBlocks (heap st ! a) @ [fn]
         \<and> invokeQueue (heap (snd (call_method Run a [fn] st)) ! a) = invokeQueue (heap st ! a)
         \<and> runBlocks (heap (snd (chain (map (\<lambda>f. (Run, [f])) fns) (JRef a) st)) ! a) =
             runBlocks (heap st ! a) @ fns
         \<and> invokeQueue (heap (snd (chain (map (\<lambda>f. (Run, [f])) fns) (JRef a) st)) ! a) =
             invokeQueue (heap st ! a)"
proof -
  have one: "call_method Run a [fn] st =
           (JRef a,
            st\<lparr>heap := (heap st)
              [a := (heap st ! a)\<lparr>runBlocks := runBlocks (heap st ! a) @ [fn]\<rparr>]\<rparr>)"
    by (simp add: run_def)
  from valid one
  have two: "runBlocks (heap (snd (call_method Run a [fn] st)) ! a) = runBlocks (heap st ! a) @ [fn]"
    and three: "invokeQueue (heap (snd (call_method Run a [fn] st)) ! a) = invokeQueue (heap st ! a)"
    by simp_all
  from run_ops_records [OF valid, of "map (\<lambda>(meth, args). Call a meth args) (map (\<lambda>f. (Run, [f])) fns)"]
  have many: "runBlocks (heap (snd (chain (map (\<lambda>f. (Run, [f])) fns) (JRef a) st)) ! a) =
             runBlocks (heap st ! a) @ fns
         \<and> invokeQueue (heap (snd (chain (map (\<lambda>f. (Run, [f])) fns) (JRef a) st)) ! a) =
             invokeQueue (heap st ! a)"
    by (simp add: chain_run_ops run_chain_ops comp_def)
  from one two three many show ?thesis by blast
qed

theorem run_appends_block_witness:
  "runBlocks (heap (snd (chain [(Run, [JFun 1]), (Run, [JFun 2])] (JRef 0) app_loader)) ! 0) =
     [JFun 1, JFun 2]
   \<and> invokeQueue (heap (snd (chain [(Run, [JFun 1]), (Run, [JFun 2])] (JRef 0) app_loader)) ! 0) = []"
proof -
  have valid: "0 < length (heap app_loader)" by (simp add: app_loader_def)
  from run_appends_block [OF valid, of "JFun 1" "[JFun 1, JFun 2]"]
  show ?thesis by (simp add: app_loader_def run_def)
qed

text \<open>
  Claim C9. \<^verbatim>\<open>constant\<close> is defined with the insert method \<^verbatim>\<open>'unshift'\<close>, which
  \<^verbatim>\<open>invokeLater\<close> ignores: the call appends \<^verbatim>\<open>['$provide', 'constant', arguments]\<close> to the
  tail of the invoke queue like every other registration method, so a constant registered
  after a provider comes after that provider in the queue.
\<close>

theorem constant_is_appended:
  assumes valid: "a < length (heap st)"
  shows "call_method Constant a = invokeLater a ''$provide'' ''constant'' (Some ''unshift'')
         \<and> invokeLater a ''$provide'' ''constant'' (Some ''unshift'') cargs st =
             invokeLater a ''$provide'' ''constant'' None cargs st
         \<and> invokeQueue (heap (snd (call_method Constant a cargs st)) ! a) =
             invokeQueue (heap st ! a) @ [(''$provide'', ''constant'', cargs)]
         \<and> invokeQueue
             (heap (snd (chain [(Provider, pargs), (Constant, cargs)] (JRef a) st)) ! a) =
             invokeQueue (heap st ! a) @
               [(''$provide'', ''provider'', pargs), (''$provide'', ''constant'', cargs)]"
proof -
  from run_ops_records [OF valid, of "[Call a Provider pargs, Call a Constant cargs]"]
  have "invokeQueue
             (heap (snd (chain [(Provider, pargs), (Constant, cargs)] (JRef a) st)) ! a) =
             invokeQueue (heap st ! a) @
               [(''$provide'', ''provider'', pargs), (''$provide'', ''constant'', cargs)]"
    by (simp add: chain_run_ops)
  with valid show ?thesis by (simp add: call_method_eq invokeLater_def)
qed

theorem constant_is_appended_witness:
  "invokeQueue
     (heap (snd (chain [(Provider, [JStr ''p'', JFun 1]), (Constant, [JStr ''c'', JBool True])]
                  (JRef 0) app_loader)) ! 0) =
     [(''$provide'', ''provider'', [JStr ''p'', JFun 1]),
      (''$provide'', ''constant'', [JStr ''c'', JBool True])]"
proof -
  have valid: "0 < length (heap app_loader)" by (simp add: app_loader_def)
  from constant_is_appended [OF valid, of "[JStr ''c'', JBool True]" "[JStr ''p'', JFun 1]"]
  show ?thesis by (simp add: app_loader_def)
qed

text \<open>
  Claim C7. Both queues of a descriptor keep the order of the calls. After any sequence of
  operations (method calls on this or on other descriptors, calls of \<^verbatim>\<open>angular.module\<close>),
  the invoke queue of the descriptor at \<open>b\<close> is what it was, followed by the entries of
  the registration calls made on \<open>b\<close>, in call order, and its run blocks are what they
  were, followed by the arguments of the \<^verbatim>\<open>run\<close> calls made on \<open>b\<close>, in call order. No
  single operation removes or reorders an entry: the old queue is a prefix of the new one.
\<close>

theorem queues_keep_call_order:
  assumes valid: "b < length (heap st)"
  shows "b < length (heap (run_ops ops st))
         \<and> invokeQueue (heap (run_ops ops st) ! b) =
             invokeQueue (heap st ! b) @ invoke_records b ops
         \<and> runBlocks (heap (run_ops ops st) ! b) = runBlocks (heap st ! b) @ run_records b ops
         \<and> prefix (invokeQueue (heap st ! b)) (invokeQueue (heap (exec op st) ! b))
         \<and> prefix (runBlocks (heap st ! b)) (runBlocks (heap (exec op st) ! b))"
  using run_ops_records [OF valid, of ops] exec_records [OF valid, of op]
  by simp

theorem queues_keep_call_order_witness:
  "invokeQueue
     (heap (run_ops [Call 0 Value [JStr ''v'', JBool True], Call 0 Run [JFun 1],
                     Module ''other'' (JArr []) (JFun 9), Call 1 Factory [JStr ''g'', JFun 3],
                     Call 0 Constant [JStr ''c'', Null], Call 0 Run [JFun 2]] app_loader) ! 0) =
     [(''$provide'', ''value'', [JStr ''v'', JBool True]),
      (''$provide'', ''constant'', [JStr ''c'', Null])]
   \<and> runBlocks
     (heap (run_ops [Call 0 Value [JStr ''v'', JBool True], Call 0 Run [JFun 1],
                     Module ''other'' (JArr []) (JFun 9), Call 1 Factory [JStr ''g'', JFun 3],
                     Call 0 Constant [JStr ''c'', Null], Call 0 Run [JFun 2]] app_loader) ! 0) =
     [JFun 1, JFun 2]"
proof -
  have valid: "0 < length (heap app_loader)" by (simp add: app_loader_def)
  from queues_keep_call_order [OF valid,
      of "[Call 0 Value [JStr ''v'', JBool True], Call 0 Run [JFun 1],
           Module ''other'' (JArr []) (JFun 9), Call 1 Factory [JStr ''g'', JFun 3],
           Call 0 Constant [JStr ''c'', Null], Call 0 Run [JFun 2]]"]
  show ?thesis by (simp add: app_loader_def)
qed

section \<open>Retrieval and registration\<close>

text \<open>
  Claim C1. A name without an entry in the registry, retrieved without a dependency list,
  should raise \<^verbatim>\<open>No module: name\<close>. The loader does so for every name that
  \<^verbatim>\<open>Object.prototype\<close> does not define (\<open>module_unregistered_raises\<close>). For a name that
  it defines the registry has no entry either, but \<^verbatim>\<open>modules[name]\<close> reads the inherited
  function, which is truthy, so \<^verbatim>\<open>ensure\<close> returns it: in the initial loader,
  \<^verbatim>\<open>angular.module('toString')\<close> raises nothing and returns \<^verbatim>\<open>Object.prototype.toString\<close>,
  which is no module descriptor.
\<close>

theorem module_inherited_name_not_missing:
  "modules initial_loader ''toString'' = None
   \<and> module ''toString'' Undefined Undefined initial_loader =
       (Inr (JNative ''toString''), initial_loader)"
  by (simp add: module_retrieve initial_loader_def get_prop_def Object_prototype_def
      Object_prototype_names_def)

text \<open>
  Claim C2, as stated, fails: it lets only a non-empty dependency list overwrite, and
  every other \<^verbatim>\<open>requires\<close> leave the registered descriptor in place. The empty array is
  truthy, so \<^verbatim>\<open>angular.module('app', [])\<close> on a loader that has \<^verbatim>\<open>app\<close> replaces the
  descriptor at address 0 by a new one at address 1.
\<close>

theorem reregister_empty_list_counterexample:
  "modules app_loader ''app'' = Some (Some 0)
   \<and> fst (module ''app'' (JArr []) Undefined app_loader) = Inr (JRef 1)
   \<and> modules (snd (module ''app'' (JArr []) Undefined app_loader)) ''app'' = Some (Some 1)
   \<and> heap (snd (module ''app'' (JArr []) Undefined app_loader)) =
       heap app_loader @
         [\<lparr>invokeQueue = [], runBlocks = [], requires = JArr [], name = ''app''\<rparr>]
   \<and> module ''app'' (JArr []) Undefined app_loader \<noteq> (Inr (JRef 0), app_loader)"
  by (simp add: module_create app_loader_def created_descriptor_def)

text \<open>
  Claim C2, amended. In a well-formed loader, for a name that has an entry in the
  registry, \<^verbatim>\<open>angular.module(name, requires)\<close> with a truthy \<^verbatim>\<open>requires\<close> (any array, the
  empty one included) raises no error, builds a new descriptor with the new \<^verbatim>\<open>requires\<close>
  and empty queues at a new address, stores it under the name in place of the old one and
  returns it; with a falsy \<^verbatim>\<open>requires\<close> (absent, \<^verbatim>\<open>null\<close>, \<^verbatim>\<open>false\<close>, the empty string) it
  returns the registered descriptor and changes nothing.
\<close>

theorem module_reregister:
  assumes wf: "wf_loader st" and present: "modules st nm = Some old"
  shows "(truthy reqs \<longrightarrow>
            module nm reqs Undefined st =
              (Inr (JRef (length (heap st))),
               \<lparr>modules = (modules st)(nm \<mapsto> Some (length (heap st))),
                heap = heap st @
                  [\<lparr>invokeQueue = [], runBlocks = [], requires = reqs, name = nm\<rparr>]\<rparr>)
            \<and> old \<noteq> Some (length (heap st)))
         \<and> (\<not> truthy reqs \<longrightarrow>
              (\<exists>a. old = Some a \<and> module nm reqs Undefined st = (Inr (JRef a), st)))"
proof -
  note own = wf_loader_hasOwnProperty [OF wf]
  from wf present obtain a where a: "old = Some a" "a < length (heap st)"
    unfolding wf_loader_def by blast
  have "truthy reqs \<longrightarrow>
            module nm reqs Undefined st =
              (Inr (JRef (length (heap st))),
               \<lparr>modules = (modules st)(nm \<mapsto> Some (length (heap st))),
                heap = heap st @
                  [\<lparr>invokeQueue = [], runBlocks = [], requires = reqs, name = nm\<rparr>]\<rparr>)"
    using own present by (simp add: module_create created_descriptor_def)
  moreover from a have "old \<noteq> Some (length (heap st))" by simp
  moreover have "\<not> truthy reqs \<longrightarrow> module nm reqs Undefined st = (Inr (JRef a), st)"
    using present a by (simp add: module_retrieve get_prop_def)
  ultimately show ?thesis using a by blast
qed

theorem module_reregister_witness:
  "module ''app'' (JArr []) Undefined app_loader =
     (Inr (JRef 1),
      \<lparr>modules = [''app'' \<mapsto> Some 1],
       heap = heap app_loader @
         [\<lparr>invokeQueue = [], runBlocks = [], requires = JArr [], name = ''app''\<rparr>]\<rparr>)
   \<and> module ''app'' Undefined Undefined app_loader = (Inr (JRef 0), app_loader)"
proof -
  have present: "modules app_loader ''app'' = Some (Some 0)" by (simp add: app_loader_def)
  from module_reregister [OF wf_loader_app present, of "JArr []"]
    module_reregister [OF wf_loader_app present, of Undefined]
  show ?thesis by (simp add: app_loader_def)
qed

text \<open>
  Claim C4. The registry memoizes by name. In a well-formed loader, a call with a truthy
  \<^verbatim>\<open>requires\<close> and a name that \<^verbatim>\<open>Object.prototype\<close> does not define builds exactly one
  descriptor, stores it under the name and returns it, and a retrieval (a call with a falsy
  \<^verbatim>\<open>requires\<close>) in the state it leaves returns that very descriptor and changes nothing.
  Once a name has a descriptor, a retrieval returns it after any sequence of operations
  that does not register the name anew, and builds no descriptor. Whatever a call
  \<^verbatim>\<open>module(name, requires, configFn)\<close> returns, \<^verbatim>\<open>module(name)\<close> right after it returns
  the very same value and leaves the state as it is; one call builds at most one
  descriptor; and an entry is not touched by a call of \<^verbatim>\<open>angular.module\<close> with another
  name or by a method of a descriptor.
\<close>

theorem module_memoized:
  "(wf_loader st \<and> truthy reqs \<and> Object_prototype nm = None \<longrightarrow>
      module nm reqs cfg st =
        (Inr (JRef (length (heap st))),
         \<lparr>modules = (modules st)(nm \<mapsto> Some (length (heap st))),
          heap = heap st @ [created_descriptor nm reqs cfg]\<rparr>)
      \<and> (\<not> truthy reqs2 \<longrightarrow>
           module nm reqs2 cfg2
             \<lparr>modules = (modules st)(nm \<mapsto> Some (length (heap st))),
              heap = heap st @ [created_descriptor nm reqs cfg]\<rparr> =
             (Inr (JRef (length (heap st))),
              \<lparr>modules = (modules st)(nm \<mapsto> Some (length (heap st))),
               heap = heap st @ [created_descriptor nm reqs cfg]\<rparr>)))
   \<and> (modules st nm = Some (Some a) \<and> (\<forall>op \<in> set ops. \<not> overwrites nm op)
        \<and> \<not> truthy reqs2 \<longrightarrow>
        module nm reqs2 cfg2 (run_ops ops st) = (Inr (JRef a), run_ops ops st))
   \<and> (modules st nm = Some (Some a) \<and> \<not> truthy reqs \<longrightarrow>
      module nm reqs cfg st = (Inr (JRef a), st))
   \<and> (module nm reqs cfg st = (Inr r, st') \<longrightarrow>
        module nm Undefined Undefined st' = (Inr r, st'))
   \<and> (\<not> truthy reqs \<longrightarrow> heap (snd (module nm reqs cfg st)) = heap st)
   \<and> length (heap (snd (module nm reqs cfg st))) \<le> Suc (length (heap st))
   \<and> (nm' \<noteq> nm \<longrightarrow> modules (snd (module nm' reqs cfg st)) nm = modules st nm)
   \<and> modules (snd (call_method meth b args st)) = modules st"
proof -
  have create: "wf_loader st \<and> truthy reqs \<and> Object_prototype nm = None \<longrightarrow>
      module nm reqs cfg st =
        (Inr (JRef (length (heap st))),
         \<lparr>modules = (modules st)(nm \<mapsto> Some (length (heap st))),
          heap = heap st @ [created_descriptor nm reqs cfg]\<rparr>)"
    by (simp add: module_create wf_loader_hasOwnProperty)
  have cached: "\<not> truthy reqs2 \<longrightarrow>
           module nm reqs2 cfg2
             \<lparr>modules = (modules st)(nm \<mapsto> Some (length (heap st))),
              heap = heap st @ [created_descriptor nm reqs cfg]\<rparr> =
             (Inr (JRef (length (heap st))),
              \<lparr>modules = (modules st)(nm \<mapsto> Some (length (heap st))),
               heap = heap st @ [created_descriptor nm reqs cfg]\<rparr>)"
    by (simp add: module_registered_retrieve)
  have later: "modules st nm = Some (Some a) \<and> (\<forall>op \<in> set ops. \<not> overwrites nm op)
        \<and> \<not> truthy reqs2 \<longrightarrow>
        module nm reqs2 cfg2 (run_ops ops st) = (Inr (JRef a), run_ops ops st)"
    using run_ops_keeps_entry [of st nm a ops]
    by (simp add: module_registered_retrieve)
  have hit: "modules st nm = Some (Some a) \<and> \<not> truthy reqs \<longrightarrow>
      module nm reqs cfg st = (Inr (JRef a), st)"
    by (simp add: module_registered_retrieve)
  have again: "module nm reqs cfg st = (Inr r, st') \<longrightarrow>
        module nm Undefined Undefined st' = (Inr r, st')"
  proof (cases "truthy reqs")
    case False
    then show ?thesis by (auto simp add: module_retrieve split: if_splits)
  next
    case True
    then show ?thesis
      by (auto simp add: module_def ensure_def Let_def module_factory_creates module_retrieve
          get_prop_def split: sum.splits if_splits)
  qed
  have same: "\<not> truthy reqs \<longrightarrow> heap (snd (module nm reqs cfg st)) = heap st"
    by (simp add: module_retrieve)
  have once: "length (heap (snd (module nm reqs cfg st))) \<le> Suc (length (heap st))"
    using module_heap_cases [of nm reqs cfg st] by auto
  have others: "nm' \<noteq> nm \<longrightarrow> modules (snd (module nm' reqs cfg st)) nm = modules st nm"
    by (simp add: module_other_entry)
  have calls: "modules (snd (call_method meth b args st)) = modules st"
    by (rule call_method_modules)
  from create cached later hit again same once others calls show ?thesis
    by blast
qed

theorem module_memoized_witness:
  "module ''app'' (JArr [JStr ''dep'']) Undefined initial_loader = (Inr (JRef 0), app_loader)
   \<and> module ''app'' Undefined Undefined app_loader = (Inr (JRef 0), app_loader)
   \<and> module ''app'' Null (JFun 5) app_loader = (Inr (JRef 0), app_loader)
   \<and> fst (module ''app'' Undefined Undefined
        (run_ops [Call 0 Factory [JStr ''f'', JFun 1], Module ''lib'' (JArr []) Undefined,
                  Module ''app'' Undefined Undefined, Call 1 Run [JFun 2]] app_loader)) =
       Inr (JRef 0)
   \<and> modules (snd (module ''lib'' (JArr []) Undefined app_loader)) ''app'' = Some (Some 0)"
proof -
  have present: "modules app_loader ''app'' = Some (Some 0)" by (simp add: app_loader_def)
  have free: "Object_prototype ''app'' = None"
    by (simp add: Object_prototype_def Object_prototype_names_def)
  have made: "\<lparr>modules = (modules initial_loader)(''app'' \<mapsto> Some (length (heap initial_loader))),
          heap = heap initial_loader @ [created_descriptor ''app'' (JArr [JStr ''dep'']) Undefined]\<rparr>
      = app_loader"
    by (simp add: initial_loader_def app_loader_def created_descriptor_def)
  have quiet: "\<forall>op \<in> set [Call 0 Factory [JStr ''f'', JFun 1], Module ''lib'' (JArr []) Undefined,
                  Module ''app'' Undefined Undefined, Call 1 Run [JFun 2]].
                 \<not> overwrites ''app'' op"
    by simp
  from present free made quiet wf_loader_initial
    module_memoized [of initial_loader "JArr [JStr ''dep'']" "''app''" Undefined Undefined
      Undefined 0 "[]" "JRef 0" app_loader "''lib''"]
    module_memoized [of app_loader Null "''app''" "JFun 5" Undefined Undefined 0
      "[Call 0 Factory [JStr ''f'', JFun 1], Module ''lib'' (JArr []) Undefined,
        Module ''app'' Undefined Undefined, Call 1 Run [JFun 2]]" "JRef 0" app_loader "''lib''"]
    module_memoized [of app_loader "JArr []" "''app''" Undefined Undefined Undefined 0 "[]"
      "JRef 0" app_loader "''lib''"]
  show ?thesis by (simp add: initial_loader_def)
qed

text \<open>
  Claim C10. A retrieval that throws leaves the loader as it was. When
  \<^verbatim>\<open>angular.module(name)\<close> with a falsy \<^verbatim>\<open>requires\<close> throws, the error is
  \<^verbatim>\<open>No module: name\<close> and the whole state (the registry, every descriptor and its queues)
  is unchanged; in a well-formed loader, a later call with a truthy \<^verbatim>\<open>requires\<close> then
  creates the module: it returns a new descriptor and stores it under the name.
\<close>

theorem failed_retrieval_is_atomic:
  assumes absent: "\<not> truthy reqs" and throws: "fst (module nm reqs cfg st) = Inl e"
  shows "e = Error (''No module: '' @ nm)
         \<and> snd (module nm reqs cfg st) = st
         \<and> (wf_loader st \<and> truthy reqs' \<longrightarrow>
              module nm reqs' cfg' (snd (module nm reqs cfg st)) =
                (Inr (JRef (length (heap st))),
                 \<lparr>modules = (modules st)(nm \<mapsto> Some (length (heap st))),
                  heap = heap st @ [created_descriptor nm reqs' cfg']\<rparr>))"
proof -
  from absent throws have falsy: "\<not> truthy (get_prop (modules st) nm)"
    by (auto simp add: module_retrieve split: if_splits)
  with absent throws have e: "e = Error (''No module: '' @ nm)"
    and unchanged: "snd (module nm reqs cfg st) = st"
    by (simp_all add: module_retrieve)
  from falsy have free: "\<not> (modules st nm = None \<and> Object_prototype nm \<noteq> None)"
    by (auto simp add: get_prop_def Object_prototype_def split: option.splits if_splits)
  have "wf_loader st \<and> truthy reqs' \<longrightarrow>
              module nm reqs' cfg' st =
                (Inr (JRef (length (heap st))),
                 \<lparr>modules = (modules st)(nm \<mapsto> Some (length (heap st))),
                  heap = heap st @ [created_descriptor nm reqs' cfg']\<rparr>)"
    using free by (auto simp add: module_create wf_loader_hasOwnProperty)
  with e unchanged show ?thesis by simp
qed

theorem failed_retrieval_is_atomic_witness:
  "module ''lib'' Undefined Undefined app_loader = (Inl (Error ''No module: lib''), app_loader)
   \<and> module ''lib'' (JArr []) (JFun 4) app_loader =
       (Inr (JRef 1),
        \<lparr>modules = [''app'' \<mapsto> Some 0, ''lib'' \<mapsto> Some 1],
         heap = heap app_loader @
           [\<lparr>invokeQueue = [(''$injector'', ''invoke'', [JFun 4])], runBlocks = [],
             requires = JArr [], name = ''lib''\<rparr>]\<rparr>)"
proof -
  have absent: "\<not> truthy Undefined" by simp
  have raised: "module ''lib'' Undefined Undefined app_loader =
      (Inl (Error ''No module: lib''), app_loader)"
    by (simp add: module_retrieve app_loader_def get_prop_def Object_prototype_def
        Object_prototype_names_def)
  then have throws: "fst (module ''lib'' Undefined Undefined app_loader) =
      Inl (Error ''No module: lib'')"
    by simp
  from failed_retrieval_is_atomic [OF absent throws, of "JArr []" "JFun 4"] raised wf_loader_app
  show ?thesis by (simp add: created_descriptor_def app_loader_def)
qed

section \<open>The exception handler forwards to the logger\<close>

text \<open>
  Claim C5. For every logger, every argument list and every state, the handler does what
  \<^verbatim>\<open>$log.error\<close> does on the same argument list: the state after it is the logger's, an
  exception of the logger passes through unchanged, and otherwise the handler returns
  \<^verbatim>\<open>undefined\<close>. On the recording logger it records exactly its own argument list, once.
\<close>

theorem exceptionHandler_forwards:
  "snd (exceptionHandler log_error args l) = snd (log_error args l)
   \<and> (\<forall>e. fst (log_error args l) = Inl e \<longrightarrow> fst (exceptionHandler log_error args l) = Inl e)
   \<and> (\<forall>r. fst (log_error args l) = Inr r \<longrightarrow>
          fst (exceptionHandler log_error args l) = Inr Undefined)
   \<and> exceptionHandler recording_log args calls = (Inr Undefined, calls @ [args])"
  by (auto simp add: exceptionHandler_def recording_log_def split: prod.splits sum.splits)

theorem exceptionHandler_forwards_witness:
  "exceptionHandler throwing_log [JStr ''boom'', JStr ''in expression''] [] =
     (Inl (Error ''console unavailable''), [])
   \<and> exceptionHandler recording_log [JStr ''boom'', JStr ''in expression'', Null] [] =
       (Inr Undefined, [[JStr ''boom'', JStr ''in expression'', Null]])"
proof -
  have thrown: "throwing_log [JStr ''boom'', JStr ''in expression''] [] =
      (Inl (Error ''console unavailable''), [])"
    by (simp add: throwing_log_def)
  from exceptionHandler_forwards
      [of throwing_log "[JStr ''boom'', JStr ''in expression'']" "[]" "[]"]
    exceptionHandler_forwards
      [of throwing_log "[JStr ''boom'', JStr ''in expression'', Null]" "[]" "[]"] thrown
  show ?thesis
    by (cases "exceptionHandler throwing_log [JStr ''boom'', JStr ''in expression''] []") simp
qed

end
